theory Spec2Isabelle
  imports Complex_Main
begin

section \<open>End-point scaling of saturation functions (ECLEndPointScaling.cpp)\<close>

text \<open>
  A shallow embedding of the scaling engines of
  \<^verbatim>\<open>opm/utility/ECLEndPointScaling.cpp\<close>: the horizontal scalings
  \<^verbatim>\<open>TwoPointScaling\<close> and \<^verbatim>\<open>ThreePointScaling\<close> (\<^verbatim>\<open>eval\<close>, \<^verbatim>\<open>reverse\<close>) and the
  vertical scalings \<^verbatim>\<open>PureVerticalScaling\<close> and \<^verbatim>\<open>CritSatVerticalScaling\<close>
  (\<^verbatim>\<open>vertScale\<close>).

  Conventions of the embedding.
  \<^item> The inputs of type \<^verbatim>\<open>double\<close> (table end points, per-cell arrays, saturations,
    function values) are finite numbers, modelled as \<^typ>\<open>real\<close>. Arithmetic on finite
    values is exact: rounding and overflow are not modelled, so a property that depends
    on them (an error bound, a tolerance) cannot be stated here.
  \<^item> The values computed by the code have the type \<open>double\<close> below, which adds the
    special values the code produces from finite inputs: the quiet NaN of
    \<^verbatim>\<open>std::nan("")\<close> and the infinities and NaN of a division by zero. There is
    one zero (the sign of zero is not modelled).
  \<^item> \<^verbatim>\<open>std::vector::operator[]\<close> is unchecked: an index out of range is undefined
    behaviour in the source and the outcome \<open>OutOfRange\<close> here.
  \<^item> \<^verbatim>\<open>assert\<close> is an enabled check: a violated assertion ends the call with
    \<open>AssertionFailure\<close>.
  \<^item> \<^verbatim>\<open>throw std::invalid_argument\<close> is the outcome \<open>InvalidArgument\<close>.
\<close>

subsection \<open>Values of type double\<close>

datatype double = Fin real | PInf | MInf | NaN

fun dneg :: "double \<Rightarrow> double" where
  "dneg (Fin a) = Fin (- a)"
| "dneg PInf = MInf"
| "dneg MInf = PInf"
| "dneg NaN = NaN"

fun dadd :: "double \<Rightarrow> double \<Rightarrow> double" where
  "dadd (Fin a) (Fin b) = Fin (a + b)"
| "dadd NaN y = NaN"
| "dadd x NaN = NaN"
| "dadd PInf MInf = NaN"
| "dadd MInf PInf = NaN"
| "dadd PInf y = PInf"
| "dadd MInf y = MInf"
| "dadd (Fin a) y = y"

definition dsub :: "double \<Rightarrow> double \<Rightarrow> double" where
  "dsub x y = dadd x (dneg y)"

text \<open>The sign of a product or quotient with an infinite operand.\<close>

definition signed_inf :: "bool \<Rightarrow> double" where
  "signed_inf negative = (if negative then MInf else PInf)"

fun dmul :: "double \<Rightarrow> double \<Rightarrow> double" where
  "dmul (Fin a) (Fin b) = Fin (a * b)"
| "dmul NaN y = NaN"
| "dmul x NaN = NaN"
| "dmul (Fin a) PInf = (if a = 0 then NaN else signed_inf (a < 0))"
| "dmul (Fin a) MInf = (if a = 0 then NaN else signed_inf (0 < a))"
| "dmul PInf (Fin b) = (if b = 0 then NaN else signed_inf (b < 0))"
| "dmul MInf (Fin b) = (if b = 0 then NaN else signed_inf (0 < b))"
| "dmul PInf PInf = PInf"
| "dmul PInf MInf = MInf"
| "dmul MInf PInf = MInf"
| "dmul MInf MInf = PInf"

fun ddiv :: "double \<Rightarrow> double \<Rightarrow> double" where
  "ddiv (Fin a) (Fin b) =
     (if b = 0 then (if a = 0 then NaN else signed_inf (a < 0)) else Fin (a / b))"
| "ddiv NaN y = NaN"
| "ddiv x NaN = NaN"
| "ddiv (Fin a) y = Fin 0"
| "ddiv PInf (Fin b) = signed_inf (b < 0)"
| "ddiv MInf (Fin b) = signed_inf (\<not> b < 0)"
| "ddiv x y = NaN"

text \<open>The comparison \<^verbatim>\<open>x < y\<close> of two doubles: false as soon as one is NaN.\<close>

fun dless :: "double \<Rightarrow> double \<Rightarrow> bool" where
  "dless (Fin a) (Fin b) = (a < b)"
| "dless NaN y = False"
| "dless x NaN = False"
| "dless x MInf = False"
| "dless PInf y = False"
| "dless x y = True"

subsection \<open>Outcomes and the data model\<close>

text \<open>
  The ways a call ends without a result: the exception \<^verbatim>\<open>std::invalid_argument\<close> of the
  constructors, a violated \<^verbatim>\<open>assert\<close>, and an unchecked vector index out of range
  (undefined behaviour in the source).
\<close>

datatype failure = InvalidArgument | AssertionFailure | OutOfRange

text \<open>
  Modelled from the spec: the enumeration \<^verbatim>\<open>InvalidEndpointBehaviour\<close> is declared in
  the header \<^verbatim>\<open>ECLEndPointScaling.hpp\<close>, which is not part of the source at hand; the
  spec gives it the two values used by \<^verbatim>\<open>handleInvalidEndpoint\<close>.
\<close>

datatype InvalidEndpointBehaviour = UseUnscaled | IgnorePoint

text \<open>
  Modelled from the spec: the struct \<^verbatim>\<open>TableEndPoints\<close> is declared in the same header;
  its fields are the ones the source reads (\<^verbatim>\<open>tep.low\<close>, \<^verbatim>\<open>tep.disp\<close>, \<^verbatim>\<open>tep.high\<close>), the
  unscaled end points of one tabulated function.
\<close>

record TableEndPoints =
  low :: real
  disp :: real
  high :: real

text \<open>
  Modelled from the spec: the struct \<^verbatim>\<open>SaturationAssoc\<close> (a cell index and a saturation,
  read as \<^verbatim>\<open>eval_pt.cell\<close> and \<^verbatim>\<open>eval_pt.sat\<close>) and the vector \<^verbatim>\<open>SaturationPoints\<close> of
  them are declared in the same header.
\<close>

record SaturationAssoc =
  cell :: nat
  sat :: real

type_synonym SaturationPoints = "SaturationAssoc list"

text \<open>
  Modelled from the spec: the struct \<^verbatim>\<open>FunctionValues\<close> is declared in the same header;
  the source reads \<^verbatim>\<open>f.disp.sat\<close>, \<^verbatim>\<open>f.disp.val\<close>, \<^verbatim>\<open>f.max.sat\<close> and \<^verbatim>\<open>f.max.val\<close>, the
  unscaled function's displacing and maximum nodes.
\<close>

record FunctionValue =
  fv_sat :: real
  fv_val :: real

record FunctionValues =
  fv_disp :: FunctionValue
  fv_max :: FunctionValue

text \<open>\<^verbatim>\<open>v[i]\<close> on a \<^verbatim>\<open>std::vector<double>\<close>.\<close>

definition vector_at :: "real list \<Rightarrow> nat \<Rightarrow> failure + real" where
  "vector_at v i = (if i < length v then Inr (v ! i) else Inl OutOfRange)"

subsection \<open>Helpers of the anonymous namespace\<close>

definition defaultedScaledSaturation :: "real \<Rightarrow> real \<Rightarrow> real" where
  "defaultedScaledSaturation s dflt =
     (if \<bar>s\<bar> < 100000000000000000000 then s else dflt)"

definition validSaturation :: "real \<Rightarrow> bool" where
  "validSaturation s = ((\<not> (s < 0)) \<and> (\<not> (s > 1)))"

definition validSaturations :: "real list \<Rightarrow> bool" where
  "validSaturations sats = foldl (\<lambda>result s. result \<and> validSaturation s) True sats"

subsection \<open>TwoPointScaling\<close>

record TwoPointScaling =
  smin_2p :: "real list"
  smax_2p :: "real list"
  handle_invalid_2p :: InvalidEndpointBehaviour

text \<open>The constructor \<^verbatim>\<open>TwoPointScaling::Impl::Impl\<close>.\<close>

definition TwoPointScaling_Impl :: "real list \<Rightarrow> real list \<Rightarrow> failure + TwoPointScaling" where
  "TwoPointScaling_Impl smin smax =
     (let this = \<lparr>smin_2p = smin, smax_2p = smax, handle_invalid_2p = UseUnscaled\<rparr>
      in if length (smin_2p this) \<noteq> length (smax_2p this)
         then Inl InvalidArgument
         else Inr this)"

definition sMin_2p :: "TwoPointScaling \<Rightarrow> nat \<Rightarrow> TableEndPoints \<Rightarrow> failure + real" where
  "sMin_2p this c tep =
     (case vector_at (smin_2p this) c of
        Inl e \<Rightarrow> Inl e
      | Inr s \<Rightarrow> Inr (defaultedScaledSaturation s (low tep)))"

definition sMax_2p :: "TwoPointScaling \<Rightarrow> nat \<Rightarrow> TableEndPoints \<Rightarrow> failure + real" where
  "sMax_2p this c tep =
     (case vector_at (smax_2p this) c of
        Inl e \<Rightarrow> Inl e
      | Inr s \<Rightarrow> Inr (defaultedScaledSaturation s (high tep)))"

definition handleInvalidEndpoint_2p ::
  "TwoPointScaling \<Rightarrow> SaturationAssoc \<Rightarrow> double list \<Rightarrow> double list" where
  "handleInvalidEndpoint_2p this sp effsat =
     (if handle_invalid_2p this = UseUnscaled then effsat @ [Fin (sat sp)]
      else if handle_invalid_2p this = IgnorePoint then effsat @ [NaN]
      else effsat)"

text \<open>
  The three-way branch of the loop body of \<^verbatim>\<open>eval\<close>, for valid end points. The first
  component is the value assigned to \<^verbatim>\<open>s_eff\<close>; the second lists the divisors of the
  divisions executed on the way (none in the clamp branches).
\<close>

definition eval_branch_2p ::
  "TableEndPoints \<Rightarrow> double \<Rightarrow> real \<Rightarrow> real \<Rightarrow> real \<Rightarrow> double \<times> double list" where
  "eval_branch_2p tep srng sLO sHI s =
     (if \<not> (s > sLO) then (Fin (low tep), [])
      else if \<not> (s < sHI) then (Fin (high tep), [])
      else
        let scaled_sat = dmul (ddiv (dsub (Fin s) (Fin sLO)) (dsub (Fin sHI) (Fin sLO))) srng
        in (dadd (Fin (low tep)) scaled_sat, [dsub (Fin sHI) (Fin sLO)]))"

definition eval_body_2p ::
  "TwoPointScaling \<Rightarrow> TableEndPoints \<Rightarrow> double \<Rightarrow> SaturationAssoc \<Rightarrow> double list
     \<Rightarrow> failure + double list" where
  "eval_body_2p this tep srng eval_pt effsat =
     (case sMin_2p this (cell eval_pt) tep of
        Inl e \<Rightarrow> Inl e
      | Inr sLO \<Rightarrow>
         (case sMax_2p this (cell eval_pt) tep of
            Inl e \<Rightarrow> Inl e
          | Inr sHI \<Rightarrow>
             if \<not> validSaturations [sLO, sHI]
             then Inr (handleInvalidEndpoint_2p this eval_pt effsat)
             else Inr (effsat @ [fst (eval_branch_2p tep srng sLO sHI (sat eval_pt))])))"

fun eval_loop_2p ::
  "TwoPointScaling \<Rightarrow> TableEndPoints \<Rightarrow> double \<Rightarrow> SaturationPoints \<Rightarrow> double list
     \<Rightarrow> failure + double list" where
  "eval_loop_2p this tep srng [] effsat = Inr effsat"
| "eval_loop_2p this tep srng (eval_pt # sp) effsat =
     (case eval_body_2p this tep srng eval_pt effsat of
        Inl e \<Rightarrow> Inl e
      | Inr effsat' \<Rightarrow> eval_loop_2p this tep srng sp effsat')"

definition eval_2p ::
  "TwoPointScaling \<Rightarrow> TableEndPoints \<Rightarrow> SaturationPoints \<Rightarrow> failure + double list" where
  "eval_2p this tep sp =
     (let srng = dsub (Fin (high tep)) (Fin (low tep))
      in eval_loop_2p this tep srng sp [])"

text \<open>The branch of the loop body of \<^verbatim>\<open>reverse\<close>.\<close>

definition reverse_branch_2p ::
  "TableEndPoints \<Rightarrow> double \<Rightarrow> real \<Rightarrow> real \<Rightarrow> real \<Rightarrow> double \<times> double list" where
  "reverse_branch_2p tep srng sLO sHI s =
     (if \<not> (s > low tep) then (Fin sLO, [])
      else if \<not> (s < high tep) then (Fin sHI, [])
      else
        let t = ddiv (dsub (Fin s) (Fin (low tep))) srng
        in (dadd (Fin sLO) (dmul t (dsub (Fin sHI) (Fin sLO))), [srng]))"

definition reverse_body_2p ::
  "TwoPointScaling \<Rightarrow> TableEndPoints \<Rightarrow> double \<Rightarrow> SaturationAssoc \<Rightarrow> double list
     \<Rightarrow> failure + double list" where
  "reverse_body_2p this tep srng eval_pt unscaledsat =
     (case sMin_2p this (cell eval_pt) tep of
        Inl e \<Rightarrow> Inl e
      | Inr sLO \<Rightarrow>
         (case sMax_2p this (cell eval_pt) tep of
            Inl e \<Rightarrow> Inl e
          | Inr sHI \<Rightarrow>
             if \<not> validSaturations [sLO, sHI]
             then Inr (handleInvalidEndpoint_2p this eval_pt unscaledsat)
             else Inr (unscaledsat @ [fst (reverse_branch_2p tep srng sLO sHI (sat eval_pt))])))"

fun reverse_loop_2p ::
  "TwoPointScaling \<Rightarrow> TableEndPoints \<Rightarrow> double \<Rightarrow> SaturationPoints \<Rightarrow> double list
     \<Rightarrow> failure + double list" where
  "reverse_loop_2p this tep srng [] unscaledsat = Inr unscaledsat"
| "reverse_loop_2p this tep srng (eval_pt # sp) unscaledsat =
     (case reverse_body_2p this tep srng eval_pt unscaledsat of
        Inl e \<Rightarrow> Inl e
      | Inr unscaledsat' \<Rightarrow> reverse_loop_2p this tep srng sp unscaledsat')"

definition reverse_2p ::
  "TwoPointScaling \<Rightarrow> TableEndPoints \<Rightarrow> SaturationPoints \<Rightarrow> failure + double list" where
  "reverse_2p this tep sp =
     (let srng = dsub (Fin (high tep)) (Fin (low tep))
      in reverse_loop_2p this tep srng sp [])"

subsection \<open>PureVerticalScaling\<close>

record PureVerticalScaling =
  fmax_pv :: "real list"

text \<open>
  The loop of \<^verbatim>\<open>vertScale\<close>: \<open>i\<close> is the loop index, the list argument holds the
  points \<^verbatim>\<open>sp[i]\<close>, \<^verbatim>\<open>sp[i+1]\<close>, ... still to visit, and \<open>ret\<close> is the vector updated
  in place.
\<close>

fun vertScale_loop_pv ::
  "PureVerticalScaling \<Rightarrow> real \<Rightarrow> SaturationPoints \<Rightarrow> nat \<Rightarrow> double list
     \<Rightarrow> failure + double list" where
  "vertScale_loop_pv this maxVal [] i ret = Inr ret"
| "vertScale_loop_pv this maxVal (pt # sp) i ret =
     (if \<not> i < length ret then Inl OutOfRange
      else case vector_at (fmax_pv this) (cell pt) of
             Inl e \<Rightarrow> Inl e
           | Inr fm \<Rightarrow>
               vertScale_loop_pv this maxVal sp (Suc i)
                 (ret[i := dmul (ret ! i) (ddiv (Fin fm) (Fin maxVal))]))"

definition vertScale_pv ::
  "PureVerticalScaling \<Rightarrow> FunctionValues \<Rightarrow> SaturationPoints \<Rightarrow> real list
     \<Rightarrow> failure + double list" where
  "vertScale_pv this f sp val =
     (if \<not> (length sp = length val) then Inl AssertionFailure
      else
        let ret = map Fin val;
            maxVal = fv_val (fv_max f)
        in vertScale_loop_pv this maxVal sp 0 ret)"

subsection \<open>CritSatVerticalScaling\<close>

record CritSatVerticalScaling =
  sdisp_cs :: "real list"
  fdisp_cs :: "real list"
  fmax_cs :: "real list"

text \<open>
  The four-way branch of the loop body of \<^verbatim>\<open>vertScale\<close>: the new value of \<^verbatim>\<open>y\<close>.
  \<open>fdisp\<close>, \<open>sdisp\<close>, \<open>fmax\<close>, \<open>smax\<close> are the locals of the source (the table's values),
  \<open>sr\<close>, \<open>fr\<close>, \<open>fm\<close> the cell's.
\<close>

definition vertScale_branch_cs ::
  "FunctionValues \<Rightarrow> real \<Rightarrow> real \<Rightarrow> real \<Rightarrow> real \<Rightarrow> double \<Rightarrow> double" where
  "vertScale_branch_cs f sr fr fm s y =
     (let fdisp = fv_val (fv_disp f); sdisp = fv_sat (fv_disp f);
          fmax = fv_val (fv_max f); smax = fv_sat (fv_max f);
          sepfv = (fmax > fdisp); sep_s = (sdisp > smax)
      in if \<not> (s > sr) then dmul y (ddiv (Fin fr) (Fin fdisp))
         else if sepfv then
           let t = ddiv (dsub y (Fin fdisp)) (dsub (Fin fmax) (Fin fdisp))
           in dadd (Fin fr) (dmul t (dsub (Fin fm) (Fin fr)))
         else if sep_s then
           let t = ddiv (dsub (Fin s) (Fin sdisp)) (dsub (Fin smax) (Fin sdisp))
           in dadd (Fin fr) (dmul t (dsub (Fin fm) (Fin fr)))
         else Fin fm)"

fun vertScale_loop_cs ::
  "CritSatVerticalScaling \<Rightarrow> FunctionValues \<Rightarrow> SaturationPoints \<Rightarrow> nat \<Rightarrow> double list
     \<Rightarrow> failure + double list" where
  "vertScale_loop_cs this f [] i ret = Inr ret"
| "vertScale_loop_cs this f (pt # sp) i ret =
     (if \<not> i < length ret then Inl OutOfRange
      else case vector_at (sdisp_cs this) (cell pt) of
             Inl e \<Rightarrow> Inl e
           | Inr sr \<Rightarrow>
              (case vector_at (fdisp_cs this) (cell pt) of
                 Inl e \<Rightarrow> Inl e
               | Inr fr \<Rightarrow>
                  (case vector_at (fmax_cs this) (cell pt) of
                     Inl e \<Rightarrow> Inl e
                   | Inr fm \<Rightarrow>
                       vertScale_loop_cs this f sp (Suc i)
                         (ret[i := vertScale_branch_cs f sr fr fm (sat pt) (ret ! i)]))))"

definition vertScale_cs ::
  "CritSatVerticalScaling \<Rightarrow> FunctionValues \<Rightarrow> SaturationPoints \<Rightarrow> real list
     \<Rightarrow> failure + double list" where
  "vertScale_cs this f sp val =
     (if \<not> (length sp = length val) then Inl AssertionFailure
      else if \<not> (\<not> (fv_val (fv_max f) < fv_val (fv_disp f))) then Inl AssertionFailure
      else if \<not> (\<not> (fv_sat (fv_max f) < fv_sat (fv_disp f))) then Inl AssertionFailure
      else vertScale_loop_cs this f sp 0 (map Fin val))"

subsection \<open>ThreePointScaling\<close>

record ThreePointScaling =
  smin_3p :: "real list"
  sdisp_3p :: "real list"
  smax_3p :: "real list"
  handle_invalid_3p :: InvalidEndpointBehaviour

text \<open>The constructor \<^verbatim>\<open>ThreePointScaling::Impl::Impl\<close>.\<close>

definition ThreePointScaling_Impl ::
  "real list \<Rightarrow> real list \<Rightarrow> real list \<Rightarrow> failure + ThreePointScaling" where
  "ThreePointScaling_Impl smin sdisp smax =
     (let this = \<lparr>smin_3p = smin, sdisp_3p = sdisp, smax_3p = smax,
                   handle_invalid_3p = UseUnscaled\<rparr>
      in if length (sdisp_3p this) \<noteq> length (smin_3p this)
            \<or> length (sdisp_3p this) \<noteq> length (smax_3p this)
         then Inl InvalidArgument
         else Inr this)"

definition sMin_3p :: "ThreePointScaling \<Rightarrow> nat \<Rightarrow> TableEndPoints \<Rightarrow> failure + real" where
  "sMin_3p this c tep =
     (case vector_at (smin_3p this) c of
        Inl e \<Rightarrow> Inl e
      | Inr s \<Rightarrow> Inr (defaultedScaledSaturation s (low tep)))"

definition sDisp_3p :: "ThreePointScaling \<Rightarrow> nat \<Rightarrow> TableEndPoints \<Rightarrow> failure + real" where
  "sDisp_3p this c tep =
     (case vector_at (sdisp_3p this) c of
        Inl e \<Rightarrow> Inl e
      | Inr s \<Rightarrow> Inr (defaultedScaledSaturation s (disp tep)))"

definition sMax_3p :: "ThreePointScaling \<Rightarrow> nat \<Rightarrow> TableEndPoints \<Rightarrow> failure + real" where
  "sMax_3p this c tep =
     (case vector_at (smax_3p this) c of
        Inl e \<Rightarrow> Inl e
      | Inr s \<Rightarrow> Inr (defaultedScaledSaturation s (high tep)))"

definition handleInvalidEndpoint_3p ::
  "ThreePointScaling \<Rightarrow> SaturationAssoc \<Rightarrow> double list \<Rightarrow> double list" where
  "handleInvalidEndpoint_3p this sp effsat =
     (if handle_invalid_3p this = UseUnscaled then effsat @ [Fin (sat sp)]
      else if handle_invalid_3p this = IgnorePoint then effsat @ [NaN]
      else effsat)"

text \<open>
  The four-way branch of the loop body of \<^verbatim>\<open>eval\<close>: the value assigned to \<^verbatim>\<open>s_eff\<close>
  and the divisors of the divisions executed.
\<close>

definition eval_branch_3p ::
  "TableEndPoints \<Rightarrow> real \<Rightarrow> real \<Rightarrow> real \<Rightarrow> real \<Rightarrow> double \<times> double list" where
  "eval_branch_3p tep sLO sR sHI s =
     (if \<not> (s > sLO) then (Fin (low tep), [])
      else if \<not> (s < sHI) then (Fin (high tep), [])
      else if s < sR then
        let t = ddiv (dsub (Fin s) (Fin sLO)) (dsub (Fin sR) (Fin sLO))
        in (dadd (Fin (low tep)) (dmul t (dsub (Fin (disp tep)) (Fin (low tep)))),
            [dsub (Fin sR) (Fin sLO)])
      else
        let t = ddiv (dsub (Fin s) (Fin sR)) (dsub (Fin sHI) (Fin sR))
        in (dadd (Fin (disp tep)) (dmul t (dsub (Fin (high tep)) (Fin (disp tep)))),
            [dsub (Fin sHI) (Fin sR)]))"

definition eval_body_3p ::
  "ThreePointScaling \<Rightarrow> TableEndPoints \<Rightarrow> SaturationAssoc \<Rightarrow> double list
     \<Rightarrow> failure + double list" where
  "eval_body_3p this tep eval_pt effsat =
     (case sMin_3p this (cell eval_pt) tep of
        Inl e \<Rightarrow> Inl e
      | Inr sLO \<Rightarrow>
         (case sDisp_3p this (cell eval_pt) tep of
            Inl e \<Rightarrow> Inl e
          | Inr sR \<Rightarrow>
             (case sMax_3p this (cell eval_pt) tep of
                Inl e \<Rightarrow> Inl e
              | Inr sHI \<Rightarrow>
                 if \<not> validSaturations [sLO, sR, sHI]
                 then Inr (handleInvalidEndpoint_3p this eval_pt effsat)
                 else Inr (effsat @ [fst (eval_branch_3p tep sLO sR sHI (sat eval_pt))]))))"

fun eval_loop_3p ::
  "ThreePointScaling \<Rightarrow> TableEndPoints \<Rightarrow> SaturationPoints \<Rightarrow> double list
     \<Rightarrow> failure + double list" where
  "eval_loop_3p this tep [] effsat = Inr effsat"
| "eval_loop_3p this tep (eval_pt # sp) effsat =
     (case eval_body_3p this tep eval_pt effsat of
        Inl e \<Rightarrow> Inl e
      | Inr effsat' \<Rightarrow> eval_loop_3p this tep sp effsat')"

definition eval_3p ::
  "ThreePointScaling \<Rightarrow> TableEndPoints \<Rightarrow> SaturationPoints \<Rightarrow> failure + double list" where
  "eval_3p this tep sp = eval_loop_3p this tep sp []"

text \<open>The branch of the loop body of \<^verbatim>\<open>reverse\<close>.\<close>

definition reverse_branch_3p ::
  "TableEndPoints \<Rightarrow> real \<Rightarrow> real \<Rightarrow> real \<Rightarrow> real \<Rightarrow> double \<times> double list" where
  "reverse_branch_3p tep sLO sR sHI s =
     (if \<not> (s > low tep) then (Fin sLO, [])
      else if \<not> (s < high tep) then (Fin sHI, [])
      else if s < disp tep then
        let t = ddiv (dsub (Fin s) (Fin (low tep))) (dsub (Fin (disp tep)) (Fin (low tep)))
        in (dadd (Fin sLO) (dmul t (dsub (Fin sR) (Fin sLO))),
            [dsub (Fin (disp tep)) (Fin (low tep))])
      else
        let t = ddiv (dsub (Fin s) (Fin (disp tep))) (dsub (Fin (high tep)) (Fin (disp tep)))
        in (dadd (Fin sR) (dmul t (dsub (Fin sHI) (Fin sR))),
            [dsub (Fin (high tep)) (Fin (disp tep))]))"

definition reverse_body_3p ::
  "ThreePointScaling \<Rightarrow> TableEndPoints \<Rightarrow> SaturationAssoc \<Rightarrow> double list
     \<Rightarrow> failure + double list" where
  "reverse_body_3p this tep eval_pt unscaledsat =
     (case sMin_3p this (cell eval_pt) tep of
        Inl e \<Rightarrow> Inl e
      | Inr sLO \<Rightarrow>
         (case sDisp_3p this (cell eval_pt) tep of
            Inl e \<Rightarrow> Inl e
          | Inr sR \<Rightarrow>
             (case sMax_3p this (cell eval_pt) tep of
                Inl e \<Rightarrow> Inl e
              | Inr sHI \<Rightarrow>
                 if \<not> validSaturations [sLO, sR, sHI]
                 then Inr (handleInvalidEndpoint_3p this eval_pt unscaledsat)
                 else Inr (unscaledsat
                           @ [fst (reverse_branch_3p tep sLO sR sHI (sat eval_pt))]))))"

fun reverse_loop_3p ::
  "ThreePointScaling \<Rightarrow> TableEndPoints \<Rightarrow> SaturationPoints \<Rightarrow> double list
     \<Rightarrow> failure + double list" where
  "reverse_loop_3p this tep [] unscaledsat = Inr unscaledsat"
| "reverse_loop_3p this tep (eval_pt # sp) unscaledsat =
     (case reverse_body_3p this tep eval_pt unscaledsat of
        Inl e \<Rightarrow> Inl e
      | Inr unscaledsat' \<Rightarrow> reverse_loop_3p this tep sp unscaledsat')"

definition reverse_3p ::
  "ThreePointScaling \<Rightarrow> TableEndPoints \<Rightarrow> SaturationPoints \<Rightarrow> failure + double list" where
  "reverse_3p this tep sp = reverse_loop_3p this tep sp []"

subsection \<open>Derived notions used to state the properties\<close>

text \<open>
  The entry that \<^verbatim>\<open>handleInvalidEndpoint\<close> appends, and the entry that one iteration of
  each of the four loops appends for a point whose cell index is in range. Lemmas
  \<open>eval_body_2p_entry\<close> to \<open>reverse_body_3p_entry\<close> below derive them from the loop
  bodies.
\<close>

definition invalid_entry :: "InvalidEndpointBehaviour \<Rightarrow> real \<Rightarrow> double" where
  "invalid_entry policy s = (case policy of UseUnscaled \<Rightarrow> Fin s | IgnorePoint \<Rightarrow> NaN)"

definition eval_entry_2p :: "TwoPointScaling \<Rightarrow> TableEndPoints \<Rightarrow> SaturationAssoc \<Rightarrow> double" where
  "eval_entry_2p this tep pt =
     (let sLO = defaultedScaledSaturation (smin_2p this ! cell pt) (low tep);
          sHI = defaultedScaledSaturation (smax_2p this ! cell pt) (high tep)
      in if validSaturations [sLO, sHI]
         then fst (eval_branch_2p tep (dsub (Fin (high tep)) (Fin (low tep))) sLO sHI (sat pt))
         else invalid_entry (handle_invalid_2p this) (sat pt))"

definition reverse_entry_2p :: "TwoPointScaling \<Rightarrow> TableEndPoints \<Rightarrow> SaturationAssoc \<Rightarrow> double" where
  "reverse_entry_2p this tep pt =
     (let sLO = defaultedScaledSaturation (smin_2p this ! cell pt) (low tep);
          sHI = defaultedScaledSaturation (smax_2p this ! cell pt) (high tep)
      in if validSaturations [sLO, sHI]
         then fst (reverse_branch_2p tep (dsub (Fin (high tep)) (Fin (low tep))) sLO sHI (sat pt))
         else invalid_entry (handle_invalid_2p this) (sat pt))"

definition eval_entry_3p :: "ThreePointScaling \<Rightarrow> TableEndPoints \<Rightarrow> SaturationAssoc \<Rightarrow> double" where
  "eval_entry_3p this tep pt =
     (let sLO = defaultedScaledSaturation (smin_3p this ! cell pt) (low tep);
          sR = defaultedScaledSaturation (sdisp_3p this ! cell pt) (disp tep);
          sHI = defaultedScaledSaturation (smax_3p this ! cell pt) (high tep)
      in if validSaturations [sLO, sR, sHI]
         then fst (eval_branch_3p tep sLO sR sHI (sat pt))
         else invalid_entry (handle_invalid_3p this) (sat pt))"

definition reverse_entry_3p :: "ThreePointScaling \<Rightarrow> TableEndPoints \<Rightarrow> SaturationAssoc \<Rightarrow> double" where
  "reverse_entry_3p this tep pt =
     (let sLO = defaultedScaledSaturation (smin_3p this ! cell pt) (low tep);
          sR = defaultedScaledSaturation (sdisp_3p this ! cell pt) (disp tep);
          sHI = defaultedScaledSaturation (smax_3p this ! cell pt) (high tep)
      in if validSaturations [sLO, sR, sHI]
         then fst (reverse_branch_3p tep sLO sR sHI (sat pt))
         else invalid_entry (handle_invalid_3p this) (sat pt))"

text \<open>Every point of a call refers to a cell that the per-cell arrays have.\<close>

definition in_range_2p :: "TwoPointScaling \<Rightarrow> SaturationPoints \<Rightarrow> bool" where
  "in_range_2p this sp =
     list_all (\<lambda>pt. cell pt < length (smin_2p this) \<and> cell pt < length (smax_2p this)) sp"

definition in_range_3p :: "ThreePointScaling \<Rightarrow> SaturationPoints \<Rightarrow> bool" where
  "in_range_3p this sp =
     list_all (\<lambda>pt. cell pt < length (smin_3p this) \<and> cell pt < length (sdisp_3p this)
                   \<and> cell pt < length (smax_3p this)) sp"

definition in_range_pv :: "PureVerticalScaling \<Rightarrow> SaturationPoints \<Rightarrow> bool" where
  "in_range_pv this sp = list_all (\<lambda>pt. cell pt < length (fmax_pv this)) sp"

definition in_range_cs :: "CritSatVerticalScaling \<Rightarrow> SaturationPoints \<Rightarrow> bool" where
  "in_range_cs this sp =
     list_all (\<lambda>pt. cell pt < length (sdisp_cs this) \<and> cell pt < length (fdisp_cs this)
                   \<and> cell pt < length (fmax_cs this)) sp"

text \<open>
  The new value that one iteration of each \<^verbatim>\<open>vertScale\<close> loop gives to \<^verbatim>\<open>ret[i]\<close>, for a
  point whose cell index is in range and the old value \<open>y\<close>.
\<close>

definition vertScale_entry_pv :: "PureVerticalScaling \<Rightarrow> real \<Rightarrow> SaturationAssoc \<Rightarrow> double \<Rightarrow> double" where
  "vertScale_entry_pv this maxVal pt y = dmul y (ddiv (Fin (fmax_pv this ! cell pt)) (Fin maxVal))"

definition vertScale_entry_cs ::
  "CritSatVerticalScaling \<Rightarrow> FunctionValues \<Rightarrow> SaturationAssoc \<Rightarrow> double \<Rightarrow> double" where
  "vertScale_entry_cs this f pt y =
     vertScale_branch_cs f (sdisp_cs this ! cell pt) (fdisp_cs this ! cell pt)
       (fmax_cs this ! cell pt) (sat pt) y"

section \<open>Properties\<close>

subsection \<open>Auxiliary facts\<close>

lemma dsub_Fin [simp]: "dsub (Fin a) (Fin b) = Fin (a - b)"
  by (simp add: dsub_def)

lemma validSaturations2:
  "validSaturations [a, b] = (0 \<le> a \<and> a \<le> 1 \<and> 0 \<le> b \<and> b \<le> 1)"
  by (auto simp: validSaturations_def validSaturation_def)

lemma validSaturations3:
  "validSaturations [a, b, c] = (0 \<le> a \<and> a \<le> 1 \<and> 0 \<le> b \<and> b \<le> 1 \<and> 0 \<le> c \<and> c \<le> 1)"
  by (auto simp: validSaturations_def validSaturation_def)

lemma handleInvalidEndpoint_2p_entry:
  "handleInvalidEndpoint_2p this pt acc = acc @ [invalid_entry (handle_invalid_2p this) (sat pt)]"
  by (cases "handle_invalid_2p this") (simp_all add: handleInvalidEndpoint_2p_def invalid_entry_def)

lemma handleInvalidEndpoint_3p_entry:
  "handleInvalidEndpoint_3p this pt acc = acc @ [invalid_entry (handle_invalid_3p this) (sat pt)]"
  by (cases "handle_invalid_3p this") (simp_all add: handleInvalidEndpoint_3p_def invalid_entry_def)

lemma eval_body_2p_entry:
  assumes "cell pt < length (smin_2p this)" "cell pt < length (smax_2p this)"
  shows "eval_body_2p this tep (dsub (Fin (high tep)) (Fin (low tep))) pt acc
         = Inr (acc @ [eval_entry_2p this tep pt])"
  using assms
  by (simp add: eval_body_2p_def sMin_2p_def sMax_2p_def vector_at_def eval_entry_2p_def
      handleInvalidEndpoint_2p_entry Let_def)

lemma reverse_body_2p_entry:
  assumes "cell pt < length (smin_2p this)" "cell pt < length (smax_2p this)"
  shows "reverse_body_2p this tep (dsub (Fin (high tep)) (Fin (low tep))) pt acc
         = Inr (acc @ [reverse_entry_2p this tep pt])"
  using assms
  by (simp add: reverse_body_2p_def sMin_2p_def sMax_2p_def vector_at_def reverse_entry_2p_def
      handleInvalidEndpoint_2p_entry Let_def)

lemma eval_body_3p_entry:
  assumes "cell pt < length (smin_3p this)" "cell pt < length (sdisp_3p this)"
    "cell pt < length (smax_3p this)"
  shows "eval_body_3p this tep pt acc = Inr (acc @ [eval_entry_3p this tep pt])"
  using assms
  by (simp add: eval_body_3p_def sMin_3p_def sDisp_3p_def sMax_3p_def vector_at_def
      eval_entry_3p_def handleInvalidEndpoint_3p_entry Let_def)

lemma reverse_body_3p_entry:
  assumes "cell pt < length (smin_3p this)" "cell pt < length (sdisp_3p this)"
    "cell pt < length (smax_3p this)"
  shows "reverse_body_3p this tep pt acc = Inr (acc @ [reverse_entry_3p this tep pt])"
  using assms
  by (simp add: reverse_body_3p_def sMin_3p_def sDisp_3p_def sMax_3p_def vector_at_def
      reverse_entry_3p_def handleInvalidEndpoint_3p_entry Let_def)

lemma eval_loop_2p_map:
  "in_range_2p this sp \<Longrightarrow>
   eval_loop_2p this tep (dsub (Fin (high tep)) (Fin (low tep))) sp acc
     = Inr (acc @ map (eval_entry_2p this tep) sp)"
  by (induction sp arbitrary: acc) (simp_all add: in_range_2p_def eval_body_2p_entry del: dsub_Fin)

lemma reverse_loop_2p_map:
  "in_range_2p this sp \<Longrightarrow>
   reverse_loop_2p this tep (dsub (Fin (high tep)) (Fin (low tep))) sp acc
     = Inr (acc @ map (reverse_entry_2p this tep) sp)"
  by (induction sp arbitrary: acc) (simp_all add: in_range_2p_def reverse_body_2p_entry del: dsub_Fin)

lemma eval_loop_3p_map:
  "in_range_3p this sp \<Longrightarrow>
   eval_loop_3p this tep sp acc = Inr (acc @ map (eval_entry_3p this tep) sp)"
  by (induction sp arbitrary: acc) (simp_all add: in_range_3p_def eval_body_3p_entry)

lemma reverse_loop_3p_map:
  "in_range_3p this sp \<Longrightarrow>
   reverse_loop_3p this tep sp acc = Inr (acc @ map (reverse_entry_3p this tep) sp)"
  by (induction sp arbitrary: acc) (simp_all add: in_range_3p_def reverse_body_3p_entry)

lemma eval_2p_map:
  "in_range_2p this sp \<Longrightarrow> eval_2p this tep sp = Inr (map (eval_entry_2p this tep) sp)"
  by (simp add: eval_2p_def Let_def eval_loop_2p_map del: dsub_Fin)

lemma reverse_2p_map:
  "in_range_2p this sp \<Longrightarrow> reverse_2p this tep sp = Inr (map (reverse_entry_2p this tep) sp)"
  by (simp add: reverse_2p_def Let_def reverse_loop_2p_map del: dsub_Fin)

lemma eval_3p_map:
  "in_range_3p this sp \<Longrightarrow> eval_3p this tep sp = Inr (map (eval_entry_3p this tep) sp)"
  by (simp add: eval_3p_def eval_loop_3p_map)

lemma reverse_3p_map:
  "in_range_3p this sp \<Longrightarrow> reverse_3p this tep sp = Inr (map (reverse_entry_3p this tep) sp)"
  by (simp add: reverse_3p_def reverse_loop_3p_map)

lemma in_range_2p_nth: "in_range_2p this sp \<Longrightarrow> i < length sp \<Longrightarrow> in_range_2p this [sp ! i]"
  by (simp add: in_range_2p_def list_all_length)

lemma in_range_3p_nth: "in_range_3p this sp \<Longrightarrow> i < length sp \<Longrightarrow> in_range_3p this [sp ! i]"
  by (simp add: in_range_3p_def list_all_length)

lemma eval_branch_2p_value:
  "fst (eval_branch_2p tep (Fin (high tep - low tep)) sLO sHI s) =
     (if s \<le> sLO then Fin (low tep)
      else if sHI \<le> s then Fin (high tep)
      else Fin (low tep + ((s - sLO) / (sHI - sLO)) * (high tep - low tep)))"
  by (simp add: eval_branch_2p_def Let_def not_less)

lemma validSaturations2_outside:
  "validSaturations [a, b] = (\<not> (a < 0 \<or> 1 < a \<or> b < 0 \<or> 1 < b))"
  by (auto simp: validSaturations2)

lemma validSaturations3_outside:
  "validSaturations [a, b, c] = (\<not> (a < 0 \<or> 1 < a \<or> b < 0 \<or> 1 < b \<or> c < 0 \<or> 1 < c))"
  by (auto simp: validSaturations3)




lemma update_segment:
  assumes "i < length ret"
  shows "take (Suc i) (ret[i := v]) = take i ret @ [v]"
    and "drop (Suc i) (ret[i := v]) = drop (Suc i) ret"
    and "drop i ret = ret ! i # drop (Suc i) ret"
  using assms
  by (simp_all add: take_Suc_conv_app_nth Cons_nth_drop_Suc)

lemma vertScale_loop_pv_segment:
  assumes "in_range_pv this sp" "i + length sp \<le> length ret"
  shows "vertScale_loop_pv this maxVal sp i ret =
           Inr (take i ret @ map2 (vertScale_entry_pv this maxVal) sp (drop i ret)
                @ drop (i + length sp) ret)"
  using assms
proof (induction sp arbitrary: i ret)
  case Nil
  then show ?case by simp
next
  case (Cons pt sp)
  from Cons.prems have i: "i < length ret" and c: "cell pt < length (fmax_pv this)"
    and r: "in_range_pv this sp"
    by (simp_all add: in_range_pv_def)
  let ?v = "dmul (ret ! i) (ddiv (Fin (fmax_pv this ! cell pt)) (Fin maxVal))"
  from Cons.prems have l: "Suc i + length sp \<le> length (ret[i := ?v])" by simp
  show ?case
    using i c Cons.IH [OF r l]
    by (simp add: vector_at_def update_segment vertScale_entry_pv_def)
qed

lemma vertScale_loop_cs_segment:
  assumes "in_range_cs this sp" "i + length sp \<le> length ret"
  shows "vertScale_loop_cs this f sp i ret =
           Inr (take i ret @ map2 (vertScale_entry_cs this f) sp (drop i ret)
                @ drop (i + length sp) ret)"
  using assms
proof (induction sp arbitrary: i ret)
  case Nil
  then show ?case by simp
next
  case (Cons pt sp)
  from Cons.prems have i: "i < length ret"
    and c: "cell pt < length (sdisp_cs this)" "cell pt < length (fdisp_cs this)"
      "cell pt < length (fmax_cs this)"
    and r: "in_range_cs this sp"
    by (simp_all add: in_range_cs_def)
  let ?v = "vertScale_entry_cs this f pt (ret ! i)"
  from Cons.prems have l: "Suc i + length sp \<le> length (ret[i := ?v])" by simp
  show ?case
    using i c Cons.IH [OF r l]
    by (simp add: vector_at_def update_segment vertScale_entry_cs_def)
qed

lemma vertScale_loop_pv_no_assertion:
  "vertScale_loop_pv this maxVal sp i ret \<noteq> Inl AssertionFailure"
  by (induction sp arbitrary: i ret) (simp_all add: vector_at_def)

lemma vertScale_pv_map2:
  assumes "length sp = length val" "in_range_pv this sp"
  shows "vertScale_pv this f sp val
         = Inr (map2 (vertScale_entry_pv this (fv_val (fv_max f))) sp (map Fin val))"
  using assms
  by (simp add: vertScale_pv_def Let_def vertScale_loop_pv_segment)

lemma vertScale_loop_cs_map2:
  assumes "length sp = length val" "in_range_cs this sp"
  shows "vertScale_loop_cs this f sp 0 (map Fin val)
         = Inr (map2 (vertScale_entry_cs this f) sp (map Fin val))"
  using assms
  by (simp add: vertScale_loop_cs_segment)

lemma vertScale_branch_cs_value:
  "vertScale_branch_cs f sr fr fm s (Fin y) =
     (if s \<le> sr then dmul (Fin y) (ddiv (Fin fr) (Fin (fv_val (fv_disp f))))
      else if fv_val (fv_max f) > fv_val (fv_disp f) then
        Fin (fr + ((y - fv_val (fv_disp f)) / (fv_val (fv_max f) - fv_val (fv_disp f))) * (fm - fr))
      else if fv_sat (fv_disp f) > fv_sat (fv_max f) then
        Fin (fr + ((s - fv_sat (fv_disp f)) / (fv_sat (fv_max f) - fv_sat (fv_disp f))) * (fm - fr))
      else Fin fm)"
  by (simp add: vertScale_branch_cs_def Let_def not_less)

lemma map2_nth:
  "length xs = length ys \<Longrightarrow> i < length xs \<Longrightarrow> map2 f xs ys ! i = f (xs ! i) (ys ! i)"
  by simp

lemma vertScale_entry_pv_nonzero:
  "maxVal \<noteq> 0 \<Longrightarrow>
   vertScale_entry_pv this maxVal pt (Fin y) = Fin (y * (fmax_pv this ! cell pt / maxVal))"
  by (simp add: vertScale_entry_pv_def)

lemma in_range_pv_map_cell:
  "in_range_pv this sp = list_all (\<lambda>c. c < length (fmax_pv this)) (map cell sp)"
  by (simp add: in_range_pv_def list.pred_map comp_def)

lemma in_range_pv_cells:
  "map cell (sp' :: SaturationPoints) = map cell sp \<Longrightarrow> in_range_pv this sp' = in_range_pv this sp"
  by (simp add: in_range_pv_map_cell)

subsection \<open>C1: clamping and interpolation of TwoPointScaling::eval\<close>

text \<open>
  Claim C1. In every call \<^verbatim>\<open>TwoPointScaling::eval(tep, points)\<close> (with cell indices that
  the arrays have), the call returns one entry per point, and for every point \<open>(cell, s)\<close>
  whose resolved end points \<open>sLO = defaulted(smin_[cell], tep.low)\<close> and
  \<open>sHI = defaulted(smax_[cell], tep.high)\<close> both lie in \<open>[0,1]\<close>, the entry is exactly
  \<open>tep.low\<close> when \<open>s \<le> sLO\<close>, else exactly \<open>tep.high\<close> when \<open>s \<ge> sHI\<close>, and otherwise the
  finite value \<open>tep.low + ((s - sLO)/(sHI - sLO)) * (tep.high - tep.low)\<close>. The three cases
  are read in this order, as the spec's "if, if, otherwise" has them.
\<close>

theorem eval_2p_clamp_interpolate:
  assumes "in_range_2p this sp"
  shows "\<exists>out. eval_2p this tep sp = Inr out \<and> length out = length sp \<and>
     (\<forall>i < length sp.
        let s = sat (sp ! i);
            sLO = defaultedScaledSaturation (smin_2p this ! cell (sp ! i)) (low tep);
            sHI = defaultedScaledSaturation (smax_2p this ! cell (sp ! i)) (high tep)
        in 0 \<le> sLO \<and> sLO \<le> 1 \<and> 0 \<le> sHI \<and> sHI \<le> 1 \<longrightarrow>
           out ! i =
             (if s \<le> sLO then Fin (low tep)
              else if s \<ge> sHI then Fin (high tep)
              else Fin (low tep + ((s - sLO) / (sHI - sLO)) * (high tep - low tep))))"
  using assms
  by (simp add: eval_2p_map eval_entry_2p_def Let_def validSaturations2 eval_branch_2p_value)

text \<open>
  An instance: one cell with \<open>smin = 0.2\<close>, \<open>smax = 0.9\<close>, the table range \<open>[0.1, 0.8]\<close> and
  the saturations \<open>0.1\<close> (clamped below), \<open>0.55\<close> (interior) and \<open>0.95\<close> (clamped above).
\<close>

theorem eval_2p_clamp_interpolate_witness:
  "in_range_2p \<lparr>smin_2p = [0.2], smax_2p = [0.9], handle_invalid_2p = UseUnscaled\<rparr>
     [\<lparr>cell = 0, sat = 0.1\<rparr>, \<lparr>cell = 0, sat = 0.55\<rparr>, \<lparr>cell = 0, sat = 0.95\<rparr>]
   \<and> (\<exists>out. eval_2p \<lparr>smin_2p = [0.2], smax_2p = [0.9], handle_invalid_2p = UseUnscaled\<rparr>
          \<lparr>low = 0.1, disp = 0.4, high = 0.8\<rparr>
          [\<lparr>cell = 0, sat = 0.1\<rparr>, \<lparr>cell = 0, sat = 0.55\<rparr>, \<lparr>cell = 0, sat = 0.95\<rparr>] = Inr out
        \<and> out ! 0 = Fin 0.1 \<and> out ! 1 = Fin 0.45 \<and> out ! 2 = Fin 0.8)"
proof -
  let ?W = "\<lparr>smin_2p = [0.2], smax_2p = [0.9], handle_invalid_2p = UseUnscaled\<rparr>"
  let ?tep = "\<lparr>low = 0.1, disp = 0.4, high = 0.8\<rparr>"
  let ?sp = "[\<lparr>cell = 0, sat = 0.1\<rparr>, \<lparr>cell = 0, sat = 0.55\<rparr>, \<lparr>cell = 0, sat = 0.95\<rparr>]"
  have h: "in_range_2p ?W ?sp"
    by (simp add: in_range_2p_def)
  from eval_2p_clamp_interpolate [OF h, of ?tep] obtain out
    where ev: "eval_2p ?W ?tep ?sp = Inr out"
      and en: "\<forall>i < length ?sp.
        let s = sat (?sp ! i);
            sLO = defaultedScaledSaturation (smin_2p ?W ! cell (?sp ! i)) (low ?tep);
            sHI = defaultedScaledSaturation (smax_2p ?W ! cell (?sp ! i)) (high ?tep)
        in 0 \<le> sLO \<and> sLO \<le> 1 \<and> 0 \<le> sHI \<and> sHI \<le> 1 \<longrightarrow>
           out ! i =
             (if s \<le> sLO then Fin (low ?tep)
              else if s \<ge> sHI then Fin (high ?tep)
              else Fin (low ?tep + ((s - sLO) / (sHI - sLO)) * (high ?tep - low ?tep)))"
    by blast
  from en [rule_format, of 0] have e0: "out ! 0 = Fin 0.1"
    by (simp add: defaultedScaledSaturation_def)
  from en [rule_format, of 1] have e1: "out ! 1 = Fin 0.45"
    by (simp add: defaultedScaledSaturation_def)
  from en [rule_format, of 2] have e2: "out ! 2 = Fin 0.8"
    by (simp add: defaultedScaledSaturation_def)
  from h ev e0 e1 e2 show ?thesis by blast
qed

subsection \<open>C2: the branches of CritSatVerticalScaling::vertScale\<close>

text \<open>
  Claim C2. A call \<^verbatim>\<open>CritSatVerticalScaling::vertScale(f, points, values)\<close> with
  \<open>points.size() == values.size()\<close> (and cell indices that the arrays have) is the loop,
  unless one of the two assertions on the table \<open>f\<close> stops it; and the loop computes, for
  the point \<open>(cell, s)\<close> with input value \<open>y\<close>: \<open>y * (fdisp_[cell] / f.disp.val)\<close> if
  \<open>s \<le> sdisp_[cell]\<close>; else, if \<open>f.max.val > f.disp.val\<close>,
  \<open>fdisp_[cell] + t*(fmax_[cell] - fdisp_[cell])\<close> with
  \<open>t = (y - f.disp.val)/(f.max.val - f.disp.val)\<close>; else, if \<open>f.disp.sat > f.max.sat\<close>, the same
  with \<open>t = (s - f.disp.sat)/(f.max.sat - f.disp.sat)\<close>; else exactly \<open>fmax_[cell]\<close>. The
  value-ratio branch comes before the saturation-ratio branch, and when
  \<open>f.max.val == f.disp.val\<close> and \<open>f.disp.sat == f.max.sat\<close> every point with
  \<open>s > sdisp_[cell]\<close> yields \<open>fmax_[cell]\<close>. (The assertion \<^verbatim>\<open>!(f.max.sat < f.disp.sat)\<close>
  keeps a call that passes it out of the saturation-ratio branch; the statement about the
  loop covers that branch for every table.)
\<close>

theorem vertScale_cs_cascade:
  assumes "length sp = length val" "in_range_cs this sp"
  shows "vertScale_cs this f sp val =
           (if fv_val (fv_max f) < fv_val (fv_disp f) \<or> fv_sat (fv_max f) < fv_sat (fv_disp f)
            then Inl AssertionFailure
            else vertScale_loop_cs this f sp 0 (map Fin val))
     \<and> (\<exists>out. vertScale_loop_cs this f sp 0 (map Fin val) = Inr out \<and> length out = length val \<and>
          (\<forall>i < length val.
             let c = cell (sp ! i); s = sat (sp ! i); y = val ! i;
                 sr = sdisp_cs this ! c; fr = fdisp_cs this ! c; fm = fmax_cs this ! c
             in out ! i =
                  (if s \<le> sr then dmul (Fin y) (ddiv (Fin fr) (Fin (fv_val (fv_disp f))))
                   else if fv_val (fv_max f) > fv_val (fv_disp f) then
                     Fin (fr + ((y - fv_val (fv_disp f))
                                / (fv_val (fv_max f) - fv_val (fv_disp f))) * (fm - fr))
                   else if fv_sat (fv_disp f) > fv_sat (fv_max f) then
                     Fin (fr + ((s - fv_sat (fv_disp f))
                                / (fv_sat (fv_max f) - fv_sat (fv_disp f))) * (fm - fr))
                   else Fin fm))
        \<and> (fv_val (fv_max f) = fv_val (fv_disp f) \<and> fv_sat (fv_disp f) = fv_sat (fv_max f) \<longrightarrow>
             (\<forall>i < length val. sat (sp ! i) > sdisp_cs this ! cell (sp ! i) \<longrightarrow>
                out ! i = Fin (fmax_cs this ! cell (sp ! i)))))"
proof -
  let ?out = "map2 (vertScale_entry_cs this f) sp (map Fin val)"
  have a: "vertScale_cs this f sp val =
           (if fv_val (fv_max f) < fv_val (fv_disp f) \<or> fv_sat (fv_max f) < fv_sat (fv_disp f)
            then Inl AssertionFailure
            else vertScale_loop_cs this f sp 0 (map Fin val))"
    using assms(1) by (simp add: vertScale_cs_def)
  have r: "vertScale_loop_cs this f sp 0 (map Fin val) = Inr ?out"
    using assms by (rule vertScale_loop_cs_map2)
  have l: "length ?out = length val"
    using assms(1) by simp
  have e: "\<forall>i < length val.
             let c = cell (sp ! i); s = sat (sp ! i); y = val ! i;
                 sr = sdisp_cs this ! c; fr = fdisp_cs this ! c; fm = fmax_cs this ! c
             in ?out ! i =
                  (if s \<le> sr then dmul (Fin y) (ddiv (Fin fr) (Fin (fv_val (fv_disp f))))
                   else if fv_val (fv_max f) > fv_val (fv_disp f) then
                     Fin (fr + ((y - fv_val (fv_disp f))
                                / (fv_val (fv_max f) - fv_val (fv_disp f))) * (fm - fr))
                   else if fv_sat (fv_disp f) > fv_sat (fv_max f) then
                     Fin (fr + ((s - fv_sat (fv_disp f))
                                / (fv_sat (fv_max f) - fv_sat (fv_disp f))) * (fm - fr))
                   else Fin fm)"
    using assms(1) by (simp add: vertScale_entry_cs_def vertScale_branch_cs_value Let_def)
  have d: "fv_val (fv_max f) = fv_val (fv_disp f) \<and> fv_sat (fv_disp f) = fv_sat (fv_max f) \<longrightarrow>
             (\<forall>i < length val. sat (sp ! i) > sdisp_cs this ! cell (sp ! i) \<longrightarrow>
                ?out ! i = Fin (fmax_cs this ! cell (sp ! i)))"
    using assms(1) by (simp add: vertScale_entry_cs_def vertScale_branch_cs_value)
  show ?thesis
    by (rule conjI [OF a]) (rule exI [of _ ?out], intro conjI r l e d)
qed

text \<open>
  Instances, for one cell with \<open>sdisp = 0.5\<close>, \<open>fdisp = 0.3\<close>, \<open>fmax = 0.9\<close> and the points
  \<open>s = 0.3\<close> (left segment) and \<open>s = 0.7\<close>: a table with distinct values (value ratio), a
  table whose two nodes coincide (\<open>fmax_[cell]\<close>), and a table with \<open>f.disp.sat > f.max.sat\<close>,
  which the assertion rejects and for which the loop takes the saturation ratio.
\<close>

theorem vertScale_cs_cascade_witness:
  "length [\<lparr>cell = 0, sat = 0.3\<rparr>, \<lparr>cell = 0, sat = 0.7\<rparr>] = length [0.1::real, 0.6]
   \<and> in_range_cs \<lparr>sdisp_cs = [0.5], fdisp_cs = [0.3], fmax_cs = [0.9]\<rparr>
        [\<lparr>cell = 0, sat = 0.3\<rparr>, \<lparr>cell = 0, sat = 0.7\<rparr>]
   \<and> vertScale_cs \<lparr>sdisp_cs = [0.5], fdisp_cs = [0.3], fmax_cs = [0.9]\<rparr>
        \<lparr>fv_disp = \<lparr>fv_sat = 0.4, fv_val = 0.2\<rparr>, fv_max = \<lparr>fv_sat = 0.8, fv_val = 1\<rparr>\<rparr>
        [\<lparr>cell = 0, sat = 0.3\<rparr>, \<lparr>cell = 0, sat = 0.7\<rparr>] [0.1, 0.6]
      = Inr [Fin 0.15, Fin 0.6]
   \<and> vertScale_cs \<lparr>sdisp_cs = [0.5], fdisp_cs = [0.3], fmax_cs = [0.9]\<rparr>
        \<lparr>fv_disp = \<lparr>fv_sat = 0.8, fv_val = 1\<rparr>, fv_max = \<lparr>fv_sat = 0.8, fv_val = 1\<rparr>\<rparr>
        [\<lparr>cell = 0, sat = 0.3\<rparr>, \<lparr>cell = 0, sat = 0.7\<rparr>] [0.1, 0.6]
      = Inr [Fin 0.03, Fin 0.9]
   \<and> vertScale_cs \<lparr>sdisp_cs = [0.5], fdisp_cs = [0.3], fmax_cs = [0.9]\<rparr>
        \<lparr>fv_disp = \<lparr>fv_sat = 0.8, fv_val = 1\<rparr>, fv_max = \<lparr>fv_sat = 0.4, fv_val = 1\<rparr>\<rparr>
        [\<lparr>cell = 0, sat = 0.3\<rparr>, \<lparr>cell = 0, sat = 0.7\<rparr>] [0.1, 0.6]
      = Inl AssertionFailure
   \<and> vertScale_loop_cs \<lparr>sdisp_cs = [0.5], fdisp_cs = [0.3], fmax_cs = [0.9]\<rparr>
        \<lparr>fv_disp = \<lparr>fv_sat = 0.8, fv_val = 1\<rparr>, fv_max = \<lparr>fv_sat = 0.4, fv_val = 1\<rparr>\<rparr>
        [\<lparr>cell = 0, sat = 0.3\<rparr>, \<lparr>cell = 0, sat = 0.7\<rparr>] 0 (map Fin [0.1, 0.6])
      = Inr [Fin 0.03, Fin 0.45]"
  using vertScale_cs_cascade
     [of "[\<lparr>cell = 0, sat = 0.3\<rparr>, \<lparr>cell = 0, sat = 0.7\<rparr>]" "[0.1, 0.6]"
         "\<lparr>sdisp_cs = [0.5], fdisp_cs = [0.3], fmax_cs = [0.9]\<rparr>"
         "\<lparr>fv_disp = \<lparr>fv_sat = 0.4, fv_val = 0.2\<rparr>, fv_max = \<lparr>fv_sat = 0.8, fv_val = 1\<rparr>\<rparr>"]
    vertScale_cs_cascade
     [of "[\<lparr>cell = 0, sat = 0.3\<rparr>, \<lparr>cell = 0, sat = 0.7\<rparr>]" "[0.1, 0.6]"
         "\<lparr>sdisp_cs = [0.5], fdisp_cs = [0.3], fmax_cs = [0.9]\<rparr>"
         "\<lparr>fv_disp = \<lparr>fv_sat = 0.8, fv_val = 1\<rparr>, fv_max = \<lparr>fv_sat = 0.8, fv_val = 1\<rparr>\<rparr>"]
    vertScale_cs_cascade
     [of "[\<lparr>cell = 0, sat = 0.3\<rparr>, \<lparr>cell = 0, sat = 0.7\<rparr>]" "[0.1, 0.6]"
         "\<lparr>sdisp_cs = [0.5], fdisp_cs = [0.3], fmax_cs = [0.9]\<rparr>"
         "\<lparr>fv_disp = \<lparr>fv_sat = 0.8, fv_val = 1\<rparr>, fv_max = \<lparr>fv_sat = 0.4, fv_val = 1\<rparr>\<rparr>"]
  by (simp add: in_range_cs_def vertScale_cs_def vector_at_def vertScale_branch_cs_def Let_def)

subsection \<open>C4: the invalid-endpoint policy\<close>

text \<open>
  Claim C4. In every call to \<^verbatim>\<open>eval\<close> or \<^verbatim>\<open>reverse\<close> of \<^verbatim>\<open>TwoPointScaling\<close> or
  \<^verbatim>\<open>ThreePointScaling\<close> (with cell indices that the arrays have), the call returns (it
  never aborts), and the entry of every point whose resolved end points include a value
  outside \<open>[0,1]\<close> is the untouched saturation of the point under \<^verbatim>\<open>UseUnscaled\<close> and NaN
  under \<^verbatim>\<open>IgnorePoint\<close>, while every other point of the same call gets the value of the
  scaling branch.
\<close>

theorem invalid_endpoint_policy:
  "(in_range_2p w2 sp \<longrightarrow>
      (\<exists>out. eval_2p w2 tep sp = Inr out \<and> length out = length sp \<and>
         (\<forall>i < length sp.
            let pt = sp ! i;
                sLO = defaultedScaledSaturation (smin_2p w2 ! cell pt) (low tep);
                sHI = defaultedScaledSaturation (smax_2p w2 ! cell pt) (high tep)
            in out ! i =
                 (if sLO < 0 \<or> 1 < sLO \<or> sHI < 0 \<or> 1 < sHI
                  then (case handle_invalid_2p w2 of
                          UseUnscaled \<Rightarrow> Fin (sat pt) | IgnorePoint \<Rightarrow> NaN)
                  else fst (eval_branch_2p tep (Fin (high tep - low tep)) sLO sHI (sat pt)))))
    \<and> (\<exists>out. reverse_2p w2 tep sp = Inr out \<and> length out = length sp \<and>
         (\<forall>i < length sp.
            let pt = sp ! i;
                sLO = defaultedScaledSaturation (smin_2p w2 ! cell pt) (low tep);
                sHI = defaultedScaledSaturation (smax_2p w2 ! cell pt) (high tep)
            in out ! i =
                 (if sLO < 0 \<or> 1 < sLO \<or> sHI < 0 \<or> 1 < sHI
                  then (case handle_invalid_2p w2 of
                          UseUnscaled \<Rightarrow> Fin (sat pt) | IgnorePoint \<Rightarrow> NaN)
                  else fst (reverse_branch_2p tep (Fin (high tep - low tep)) sLO sHI (sat pt))))))
   \<and> (in_range_3p w3 sp \<longrightarrow>
      (\<exists>out. eval_3p w3 tep sp = Inr out \<and> length out = length sp \<and>
         (\<forall>i < length sp.
            let pt = sp ! i;
                sLO = defaultedScaledSaturation (smin_3p w3 ! cell pt) (low tep);
                sR = defaultedScaledSaturation (sdisp_3p w3 ! cell pt) (disp tep);
                sHI = defaultedScaledSaturation (smax_3p w3 ! cell pt) (high tep)
            in out ! i =
                 (if sLO < 0 \<or> 1 < sLO \<or> sR < 0 \<or> 1 < sR \<or> sHI < 0 \<or> 1 < sHI
                  then (case handle_invalid_3p w3 of
                          UseUnscaled \<Rightarrow> Fin (sat pt) | IgnorePoint \<Rightarrow> NaN)
                  else fst (eval_branch_3p tep sLO sR sHI (sat pt)))))
    \<and> (\<exists>out. reverse_3p w3 tep sp = Inr out \<and> length out = length sp \<and>
         (\<forall>i < length sp.
            let pt = sp ! i;
                sLO = defaultedScaledSaturation (smin_3p w3 ! cell pt) (low tep);
                sR = defaultedScaledSaturation (sdisp_3p w3 ! cell pt) (disp tep);
                sHI = defaultedScaledSaturation (smax_3p w3 ! cell pt) (high tep)
            in out ! i =
                 (if sLO < 0 \<or> 1 < sLO \<or> sR < 0 \<or> 1 < sR \<or> sHI < 0 \<or> 1 < sHI
                  then (case handle_invalid_3p w3 of
                          UseUnscaled \<Rightarrow> Fin (sat pt) | IgnorePoint \<Rightarrow> NaN)
                  else fst (reverse_branch_3p tep sLO sR sHI (sat pt))))))"
  by (simp add: eval_2p_map reverse_2p_map eval_3p_map reverse_3p_map
      eval_entry_2p_def reverse_entry_2p_def eval_entry_3p_def reverse_entry_3p_def
      validSaturations2_outside validSaturations3_outside invalid_entry_def Let_def)

text \<open>
  An instance with the invalid end point \<open>smin_[1] = 1.5\<close>: the point of cell 1 keeps its
  saturation \<open>0.7\<close> under \<^verbatim>\<open>UseUnscaled\<close> and becomes NaN under \<^verbatim>\<open>IgnorePoint\<close>; the
  points of cell 0 are scaled.
\<close>

theorem invalid_endpoint_policy_witness:
  "in_range_2p \<lparr>smin_2p = [0.2, 1.5], smax_2p = [0.9, 0.9], handle_invalid_2p = UseUnscaled\<rparr>
     [\<lparr>cell = 0, sat = 0.55\<rparr>, \<lparr>cell = 1, sat = 0.7\<rparr>, \<lparr>cell = 0, sat = 0.95\<rparr>]
   \<and> (\<exists>out. eval_2p \<lparr>smin_2p = [0.2, 1.5], smax_2p = [0.9, 0.9], handle_invalid_2p = UseUnscaled\<rparr>
          \<lparr>low = 0.1, disp = 0.4, high = 0.8\<rparr>
          [\<lparr>cell = 0, sat = 0.55\<rparr>, \<lparr>cell = 1, sat = 0.7\<rparr>, \<lparr>cell = 0, sat = 0.95\<rparr>] = Inr out
        \<and> out ! 0 = Fin 0.45 \<and> out ! 1 = Fin 0.7 \<and> out ! 2 = Fin 0.8)
   \<and> in_range_3p \<lparr>smin_3p = [0.2, 1.5], sdisp_3p = [0.5, 0.5], smax_3p = [0.9, 0.9],
                   handle_invalid_3p = IgnorePoint\<rparr>
     [\<lparr>cell = 0, sat = 0.6\<rparr>, \<lparr>cell = 1, sat = 0.7\<rparr>, \<lparr>cell = 0, sat = 0.95\<rparr>]
   \<and> (\<exists>out. eval_3p \<lparr>smin_3p = [0.2, 1.5], sdisp_3p = [0.5, 0.5], smax_3p = [0.9, 0.9],
                   handle_invalid_3p = IgnorePoint\<rparr>
          \<lparr>low = 0.1, disp = 0.4, high = 0.8\<rparr>
          [\<lparr>cell = 0, sat = 0.6\<rparr>, \<lparr>cell = 1, sat = 0.7\<rparr>, \<lparr>cell = 0, sat = 0.95\<rparr>] = Inr out
        \<and> out ! 0 = Fin 0.5 \<and> out ! 1 = NaN \<and> out ! 2 = Fin 0.8)"
  using invalid_endpoint_policy
    [of "\<lparr>smin_2p = [0.2, 1.5], smax_2p = [0.9, 0.9], handle_invalid_2p = UseUnscaled\<rparr>"
        "[\<lparr>cell = 0, sat = 0.55\<rparr>, \<lparr>cell = 1, sat = 0.7\<rparr>, \<lparr>cell = 0, sat = 0.95\<rparr>]"
        "\<lparr>low = 0.1, disp = 0.4, high = 0.8\<rparr>"
        "\<lparr>smin_3p = [0.2, 1.5], sdisp_3p = [0.5, 0.5], smax_3p = [0.9, 0.9],
                   handle_invalid_3p = IgnorePoint\<rparr>"]
   invalid_endpoint_policy
    [of "\<lparr>smin_2p = [0.2, 1.5], smax_2p = [0.9, 0.9], handle_invalid_2p = UseUnscaled\<rparr>"
        "[\<lparr>cell = 0, sat = 0.6\<rparr>, \<lparr>cell = 1, sat = 0.7\<rparr>, \<lparr>cell = 0, sat = 0.95\<rparr>]"
        "\<lparr>low = 0.1, disp = 0.4, high = 0.8\<rparr>"
        "\<lparr>smin_3p = [0.2, 1.5], sdisp_3p = [0.5, 0.5], smax_3p = [0.9, 0.9],
                   handle_invalid_3p = IgnorePoint\<rparr>"]
  by (simp add: in_range_2p_def in_range_3p_def eval_2p_map eval_3p_map eval_entry_2p_def eval_entry_3p_def
      validSaturations2 validSaturations3 invalid_entry_def
      defaultedScaledSaturation_def eval_branch_2p_def eval_branch_3p_def Let_def)

subsection \<open>C5: one output entry per input point, in order\<close>

text \<open>
  Claim C5. Every call to \<^verbatim>\<open>eval\<close> or \<^verbatim>\<open>reverse\<close> of \<^verbatim>\<open>TwoPointScaling\<close> or
  \<^verbatim>\<open>ThreePointScaling\<close> (with cell indices that the arrays have) returns, under either
  policy and whatever the number of points with invalid end points, a vector with exactly
  as many entries as there are points, and its \<open>i\<close>-th entry is the entry the \<open>i\<close>-th point
  yields in a call of its own.
\<close>

theorem output_length_and_order:
  "(in_range_2p w2 sp \<longrightarrow>
      (\<exists>out. eval_2p w2 tep sp = Inr out \<and> length out = length sp \<and>
         (\<forall>i < length sp. eval_2p w2 tep [sp ! i] = Inr [out ! i]))
    \<and> (\<exists>out. reverse_2p w2 tep sp = Inr out \<and> length out = length sp \<and>
         (\<forall>i < length sp. reverse_2p w2 tep [sp ! i] = Inr [out ! i])))
   \<and> (in_range_3p w3 sp \<longrightarrow>
      (\<exists>out. eval_3p w3 tep sp = Inr out \<and> length out = length sp \<and>
         (\<forall>i < length sp. eval_3p w3 tep [sp ! i] = Inr [out ! i]))
    \<and> (\<exists>out. reverse_3p w3 tep sp = Inr out \<and> length out = length sp \<and>
         (\<forall>i < length sp. reverse_3p w3 tep [sp ! i] = Inr [out ! i])))"
  by (simp add: eval_2p_map reverse_2p_map eval_3p_map reverse_3p_map
      in_range_2p_nth in_range_3p_nth)

text \<open>
  Instances: a \<^verbatim>\<open>reverse\<close> under \<^verbatim>\<open>IgnorePoint\<close> where two of three points are invalid,
  and an \<^verbatim>\<open>eval\<close> under \<^verbatim>\<open>UseUnscaled\<close> where one of two is.
\<close>

theorem output_length_and_order_witness:
  "in_range_2p \<lparr>smin_2p = [0.2, 1.5], smax_2p = [0.9, 0.9], handle_invalid_2p = IgnorePoint\<rparr>
     [\<lparr>cell = 1, sat = 0.3\<rparr>, \<lparr>cell = 0, sat = 0.45\<rparr>, \<lparr>cell = 1, sat = 0.7\<rparr>]
   \<and> (\<exists>out. reverse_2p \<lparr>smin_2p = [0.2, 1.5], smax_2p = [0.9, 0.9], handle_invalid_2p = IgnorePoint\<rparr>
          \<lparr>low = 0.1, disp = 0.4, high = 0.8\<rparr>
          [\<lparr>cell = 1, sat = 0.3\<rparr>, \<lparr>cell = 0, sat = 0.45\<rparr>, \<lparr>cell = 1, sat = 0.7\<rparr>] = Inr out
        \<and> length out = 3 \<and> out = [NaN, Fin 0.55, NaN])
   \<and> in_range_3p \<lparr>smin_3p = [0.2, 0.1], sdisp_3p = [0.5, -0.5], smax_3p = [0.9, 0.9],
                   handle_invalid_3p = UseUnscaled\<rparr>
     [\<lparr>cell = 1, sat = 0.3\<rparr>, \<lparr>cell = 0, sat = 0.6\<rparr>]
   \<and> (\<exists>out. eval_3p \<lparr>smin_3p = [0.2, 0.1], sdisp_3p = [0.5, -0.5], smax_3p = [0.9, 0.9],
                   handle_invalid_3p = UseUnscaled\<rparr>
          \<lparr>low = 0.1, disp = 0.4, high = 0.8\<rparr>
          [\<lparr>cell = 1, sat = 0.3\<rparr>, \<lparr>cell = 0, sat = 0.6\<rparr>] = Inr out
        \<and> length out = 2 \<and> out = [Fin 0.3, Fin 0.5])"
  using output_length_and_order
    [of "\<lparr>smin_2p = [0.2, 1.5], smax_2p = [0.9, 0.9], handle_invalid_2p = IgnorePoint\<rparr>"
        "[\<lparr>cell = 1, sat = 0.3\<rparr>, \<lparr>cell = 0, sat = 0.45\<rparr>, \<lparr>cell = 1, sat = 0.7\<rparr>]"
        "\<lparr>low = 0.1, disp = 0.4, high = 0.8\<rparr>"
        "\<lparr>smin_3p = [0.2, 0.1], sdisp_3p = [0.5, -0.5], smax_3p = [0.9, 0.9],
                   handle_invalid_3p = UseUnscaled\<rparr>"]
   output_length_and_order
    [of "\<lparr>smin_2p = [0.2, 1.5], smax_2p = [0.9, 0.9], handle_invalid_2p = IgnorePoint\<rparr>"
        "[\<lparr>cell = 1, sat = 0.3\<rparr>, \<lparr>cell = 0, sat = 0.6\<rparr>]"
        "\<lparr>low = 0.1, disp = 0.4, high = 0.8\<rparr>"
        "\<lparr>smin_3p = [0.2, 0.1], sdisp_3p = [0.5, -0.5], smax_3p = [0.9, 0.9],
                   handle_invalid_3p = UseUnscaled\<rparr>"]
  by (simp add: in_range_2p_def in_range_3p_def reverse_2p_map eval_3p_map reverse_entry_2p_def eval_entry_3p_def
      validSaturations2 validSaturations3 invalid_entry_def
      defaultedScaledSaturation_def reverse_branch_2p_def eval_branch_3p_def Let_def)

subsection \<open>C6: construction from arrays of different lengths\<close>

text \<open>
  Claim C6. Constructing a \<^verbatim>\<open>TwoPointScaling\<close> from arrays \<open>smin\<close> and \<open>smax\<close> of different
  lengths fails with \<^verbatim>\<open>std::invalid_argument\<close> and yields no object, and so does
  constructing a \<^verbatim>\<open>ThreePointScaling\<close> whenever \<open>smin\<close>, \<open>sdisp\<close> and \<open>smax\<close> do not all
  have the same length; with equal lengths the object is created.
\<close>

theorem constructor_size_mismatch:
  "(length smin \<noteq> length smax \<longrightarrow> TwoPointScaling_Impl smin smax = Inl InvalidArgument)
   \<and> (length smin = length smax \<longrightarrow>
        TwoPointScaling_Impl smin smax
          = Inr \<lparr>smin_2p = smin, smax_2p = smax, handle_invalid_2p = UseUnscaled\<rparr>)
   \<and> (\<not> (length smin = length sdisp \<and> length sdisp = length smax) \<longrightarrow>
        ThreePointScaling_Impl smin sdisp smax = Inl InvalidArgument)
   \<and> (length smin = length sdisp \<and> length sdisp = length smax \<longrightarrow>
        ThreePointScaling_Impl smin sdisp smax
          = Inr \<lparr>smin_3p = smin, sdisp_3p = sdisp, smax_3p = smax,
                 handle_invalid_3p = UseUnscaled\<rparr>)"
  by (auto simp: TwoPointScaling_Impl_def ThreePointScaling_Impl_def Let_def)

text \<open>The spec's instance: \<open>smin\<close> of length 10 and \<open>smax\<close> of length 9.\<close>

theorem constructor_size_mismatch_witness:
  "length (replicate 10 (0.2::real)) \<noteq> length (replicate 9 (0.9::real))
   \<and> TwoPointScaling_Impl (replicate 10 0.2) (replicate 9 0.9) = Inl InvalidArgument
   \<and> \<not> (length (replicate 10 (0.2::real)) = length (replicate 10 (0.5::real))
         \<and> length (replicate 10 (0.5::real)) = length (replicate 9 (0.9::real)))
   \<and> ThreePointScaling_Impl (replicate 10 0.2) (replicate 10 0.5) (replicate 9 0.9)
       = Inl InvalidArgument
   \<and> length [0.2::real] = length [0.9::real]
   \<and> TwoPointScaling_Impl [0.2] [0.9]
       = Inr \<lparr>smin_2p = [0.2], smax_2p = [0.9], handle_invalid_2p = UseUnscaled\<rparr>"
  using constructor_size_mismatch [of "replicate 10 0.2" "replicate 9 0.9" "replicate 10 0.5"]
    constructor_size_mismatch [of "[0.2]" "[0.9]" "[0.5]"]
  by simp

subsection \<open>C7: PureVerticalScaling::vertScale multiplies by a ratio\<close>

text \<open>
  Claim C7 says that the \<open>i\<close>-th output of \<^verbatim>\<open>PureVerticalScaling::vertScale\<close> is
  \<open>values[i] * (fmax_[cell] / f.max.val)\<close> and that, in particular, the output equals the
  input values when \<open>fmax_[cell] == f.max.val\<close> for every referenced cell. The particular
  case fails for a table whose maximum value is zero: the ratio is then \<open>0/0\<close>, a NaN, and
  so is every output entry.
\<close>

theorem vertScale_pv_zero_maximum_counterexample:
  "fmax_pv \<lparr>fmax_pv = [0]\<rparr> ! cell \<lparr>cell = 0, sat = 0.5\<rparr>
     = fv_val (fv_max \<lparr>fv_disp = \<lparr>fv_sat = 0.2, fv_val = 0\<rparr>, fv_max = \<lparr>fv_sat = 0.8, fv_val = 0\<rparr>\<rparr>)
   \<and> vertScale_pv \<lparr>fmax_pv = [0]\<rparr>
        \<lparr>fv_disp = \<lparr>fv_sat = 0.2, fv_val = 0\<rparr>, fv_max = \<lparr>fv_sat = 0.8, fv_val = 0\<rparr>\<rparr>
        [\<lparr>cell = 0, sat = 0.5\<rparr>] [1] = Inr [NaN]
   \<and> vertScale_pv \<lparr>fmax_pv = [0]\<rparr>
        \<lparr>fv_disp = \<lparr>fv_sat = 0.2, fv_val = 0\<rparr>, fv_max = \<lparr>fv_sat = 0.8, fv_val = 0\<rparr>\<rparr>
        [\<lparr>cell = 0, sat = 0.5\<rparr>] [1] \<noteq> Inr (map Fin [1])"
  by (simp add: vertScale_pv_def vector_at_def Let_def)

text \<open>
  Claim C7, amended. For every call \<^verbatim>\<open>PureVerticalScaling::vertScale(f, points, values)\<close>
  with \<open>points.size() == values.size()\<close> (and cell indices that the array has), the \<open>i\<close>-th
  output entry is exactly \<open>values[i] * (fmax_[points[i].cell] / f.max.val)\<close>, a finite
  product when \<open>f.max.val\<close> is not zero, with no clamping and no dependence on the
  saturations (points with the same cells give the same output); and when \<open>f.max.val\<close> is
  not zero and \<open>fmax_[cell] == f.max.val\<close> for every referenced cell, the output equals the
  input values.
\<close>

theorem vertScale_pv_ratio:
  assumes "length sp = length val" "in_range_pv this sp"
  shows "\<exists>out. vertScale_pv this f sp val = Inr out \<and> length out = length val \<and>
     (\<forall>i < length val.
        out ! i = dmul (Fin (val ! i))
                    (ddiv (Fin (fmax_pv this ! cell (sp ! i))) (Fin (fv_val (fv_max f)))))
     \<and> (fv_val (fv_max f) \<noteq> 0 \<longrightarrow>
          (\<forall>i < length val.
             out ! i = Fin (val ! i * (fmax_pv this ! cell (sp ! i) / fv_val (fv_max f)))))
     \<and> (\<forall>sp' :: SaturationPoints. map cell sp' = map cell sp \<longrightarrow> vertScale_pv this f sp' val = Inr out)
     \<and> (fv_val (fv_max f) \<noteq> 0
          \<and> (\<forall>i < length sp. fmax_pv this ! cell (sp ! i) = fv_val (fv_max f))
        \<longrightarrow> out = map Fin val)"
proof -
  let ?m = "fv_val (fv_max f)"
  let ?out = "map2 (vertScale_entry_pv this ?m) sp (map Fin val)"
  have r: "vertScale_pv this f sp val = Inr ?out"
    using assms by (rule vertScale_pv_map2)
  have l: "length ?out = length val"
    using assms(1) by simp
  have e: "\<forall>i < length val.
        ?out ! i = dmul (Fin (val ! i))
                    (ddiv (Fin (fmax_pv this ! cell (sp ! i))) (Fin ?m))"
    using assms(1) by (simp add: vertScale_entry_pv_def)
  have n: "?m \<noteq> 0 \<longrightarrow>
          (\<forall>i < length val. ?out ! i = Fin (val ! i * (fmax_pv this ! cell (sp ! i) / ?m)))"
    using assms(1) by (simp add: vertScale_entry_pv_nonzero)
  have s: "\<forall>sp' :: SaturationPoints. map cell sp' = map cell sp \<longrightarrow> vertScale_pv this f sp' val = Inr ?out"
  proof (intro allI impI)
    fix sp' :: SaturationPoints assume c: "map cell sp' = map cell sp"
    then have len: "length sp' = length sp" by (rule map_eq_imp_length_eq)
    from in_range_pv_cells [OF c] assms(2) have r': "in_range_pv this sp'"
      by simp
    from len assms(1) have "length sp' = length val"
      by simp
    then have "vertScale_pv this f sp' val
        = Inr (map2 (vertScale_entry_pv this ?m) sp' (map Fin val))"
      using r' by (rule vertScale_pv_map2)
    moreover have "map2 (vertScale_entry_pv this ?m) sp' (map Fin val) = ?out"
    proof (rule nth_equalityI)
      show "length (map2 (vertScale_entry_pv this ?m) sp' (map Fin val)) = length ?out"
        using len by simp
    next
      fix i assume "i < length (map2 (vertScale_entry_pv this ?m) sp' (map Fin val))"
      then have i: "i < length sp" "i < length sp'" "i < length val"
        using len assms(1) by simp_all
      from c i have "cell (sp' ! i) = cell (sp ! i)"
        by (metis nth_map)
      with i show "map2 (vertScale_entry_pv this ?m) sp' (map Fin val) ! i = ?out ! i"
        by (simp add: vertScale_entry_pv_def)
    qed
    ultimately show "vertScale_pv this f sp' val = Inr ?out" by simp
  qed
  have d: "?m \<noteq> 0 \<and> (\<forall>i < length sp. fmax_pv this ! cell (sp ! i) = ?m) \<longrightarrow> ?out = map Fin val"
  proof
    assume a: "?m \<noteq> 0 \<and> (\<forall>i < length sp. fmax_pv this ! cell (sp ! i) = ?m)"
    show "?out = map Fin val"
    proof (rule nth_equalityI)
      show "length ?out = length (map Fin val)" using assms(1) by simp
    next
      fix i assume "i < length ?out"
      then have i: "i < length sp" "i < length val" using assms(1) by simp_all
      with a show "?out ! i = map Fin val ! i"
        by (simp add: vertScale_entry_pv_nonzero)
    qed
  qed
  show ?thesis
    by (rule exI [of _ ?out]) (intro conjI r l e n s d)
qed

text \<open>
  Instances: the ratios \<open>0.9\<close> and \<open>0.5\<close> applied to \<open>0.4\<close> and \<open>0.6\<close>, and the identity for
  \<open>fmax_[1] = f.max.val = 0.5\<close>.
\<close>

theorem vertScale_pv_ratio_witness:
  "length [\<lparr>cell = 0, sat = 0.3\<rparr>, \<lparr>cell = 1, sat = 0.7\<rparr>] = length [0.4::real, 0.6]
   \<and> in_range_pv \<lparr>fmax_pv = [0.9, 0.5]\<rparr> [\<lparr>cell = 0, sat = 0.3\<rparr>, \<lparr>cell = 1, sat = 0.7\<rparr>]
   \<and> vertScale_pv \<lparr>fmax_pv = [0.9, 0.5]\<rparr>
        \<lparr>fv_disp = \<lparr>fv_sat = 0.4, fv_val = 0.2\<rparr>, fv_max = \<lparr>fv_sat = 0.8, fv_val = 1\<rparr>\<rparr>
        [\<lparr>cell = 0, sat = 0.3\<rparr>, \<lparr>cell = 1, sat = 0.7\<rparr>] [0.4, 0.6]
      = Inr [Fin 0.36, Fin 0.3]
   \<and> vertScale_pv \<lparr>fmax_pv = [0.9, 0.5]\<rparr>
        \<lparr>fv_disp = \<lparr>fv_sat = 0.4, fv_val = 0.2\<rparr>, fv_max = \<lparr>fv_sat = 0.8, fv_val = 0.5\<rparr>\<rparr>
        [\<lparr>cell = 1, sat = 0.3\<rparr>, \<lparr>cell = 1, sat = 0.7\<rparr>] [0.4, 0.6]
      = Inr (map Fin [0.4, 0.6])"
  using vertScale_pv_ratio
     [of "[\<lparr>cell = 0, sat = 0.3\<rparr>, \<lparr>cell = 1, sat = 0.7\<rparr>]" "[0.4, 0.6]"
         "\<lparr>fmax_pv = [0.9, 0.5]\<rparr>"
         "\<lparr>fv_disp = \<lparr>fv_sat = 0.4, fv_val = 0.2\<rparr>, fv_max = \<lparr>fv_sat = 0.8, fv_val = 1\<rparr>\<rparr>"]
    vertScale_pv_ratio
     [of "[\<lparr>cell = 1, sat = 0.3\<rparr>, \<lparr>cell = 1, sat = 0.7\<rparr>]" "[0.4, 0.6]"
         "\<lparr>fmax_pv = [0.9, 0.5]\<rparr>"
         "\<lparr>fv_disp = \<lparr>fv_sat = 0.4, fv_val = 0.2\<rparr>, fv_max = \<lparr>fv_sat = 0.8, fv_val = 0.5\<rparr>\<rparr>"]
  by (simp add: in_range_pv_def vertScale_pv_def vector_at_def Let_def)

subsection \<open>C8: a three-point scaling with a degenerate sub-interval\<close>



subsection \<open>C9: the only failure of PureVerticalScaling::vertScale\<close>

text \<open>
  Claim C9. \<^verbatim>\<open>PureVerticalScaling::vertScale\<close> fails its assertion if and only if
  \<open>points.size() != values.size()\<close>: a size mismatch ends the call with a failure and no
  output (nothing is truncated), and with equal sizes (and cell indices that the array has)
  the call returns one entry per value.
\<close>

theorem vertScale_pv_fails_iff_size_mismatch:
  "(vertScale_pv this f sp val = Inl AssertionFailure \<longleftrightarrow> length sp \<noteq> length val)
   \<and> (length sp = length val \<and> in_range_pv this sp \<longrightarrow>
        (\<exists>out. vertScale_pv this f sp val = Inr out \<and> length out = length val))"
proof (intro conjI impI)
  show "vertScale_pv this f sp val = Inl AssertionFailure \<longleftrightarrow> length sp \<noteq> length val"
    by (simp add: vertScale_pv_def Let_def vertScale_loop_pv_no_assertion)
next
  assume "length sp = length val \<and> in_range_pv this sp"
  then show "\<exists>out. vertScale_pv this f sp val = Inr out \<and> length out = length val"
    by (simp add: vertScale_pv_map2)
qed

text \<open>Instances: two points with one value, and two points with two values.\<close>

theorem vertScale_pv_fails_iff_size_mismatch_witness:
  "length [\<lparr>cell = 0, sat = 0.3\<rparr>, \<lparr>cell = 1, sat = 0.7\<rparr>] \<noteq> length [0.4::real]
   \<and> vertScale_pv \<lparr>fmax_pv = [0.9, 0.5]\<rparr>
        \<lparr>fv_disp = \<lparr>fv_sat = 0.4, fv_val = 0.2\<rparr>, fv_max = \<lparr>fv_sat = 0.8, fv_val = 1\<rparr>\<rparr>
        [\<lparr>cell = 0, sat = 0.3\<rparr>, \<lparr>cell = 1, sat = 0.7\<rparr>] [0.4]
      = Inl AssertionFailure
   \<and> length [\<lparr>cell = 0, sat = 0.3\<rparr>, \<lparr>cell = 1, sat = 0.7\<rparr>] = length [0.4::real, 0.6]
   \<and> in_range_pv \<lparr>fmax_pv = [0.9, 0.5]\<rparr> [\<lparr>cell = 0, sat = 0.3\<rparr>, \<lparr>cell = 1, sat = 0.7\<rparr>]
   \<and> (\<exists>out. vertScale_pv \<lparr>fmax_pv = [0.9, 0.5]\<rparr>
        \<lparr>fv_disp = \<lparr>fv_sat = 0.4, fv_val = 0.2\<rparr>, fv_max = \<lparr>fv_sat = 0.8, fv_val = 1\<rparr>\<rparr>
        [\<lparr>cell = 0, sat = 0.3\<rparr>, \<lparr>cell = 1, sat = 0.7\<rparr>] [0.4, 0.6] = Inr out
        \<and> length out = length [0.4::real, 0.6])"
  using vertScale_pv_fails_iff_size_mismatch
     [of "\<lparr>fmax_pv = [0.9, 0.5]\<rparr>"
         "\<lparr>fv_disp = \<lparr>fv_sat = 0.4, fv_val = 0.2\<rparr>, fv_max = \<lparr>fv_sat = 0.8, fv_val = 1\<rparr>\<rparr>"
         "[\<lparr>cell = 0, sat = 0.3\<rparr>, \<lparr>cell = 1, sat = 0.7\<rparr>]" "[0.4]"]
    vertScale_pv_fails_iff_size_mismatch
     [of "\<lparr>fmax_pv = [0.9, 0.5]\<rparr>"
         "\<lparr>fv_disp = \<lparr>fv_sat = 0.4, fv_val = 0.2\<rparr>, fv_max = \<lparr>fv_sat = 0.8, fv_val = 1\<rparr>\<rparr>"
         "[\<lparr>cell = 0, sat = 0.3\<rparr>, \<lparr>cell = 1, sat = 0.7\<rparr>]" "[0.4, 0.6]"]
  by (simp add: in_range_pv_def)

subsection \<open>C10: the divisors of eval and reverse\<close>

text \<open>
  Claim C10 says that every division in \<^verbatim>\<open>eval\<close> and \<^verbatim>\<open>reverse\<close> of both scalings has a
  strictly positive divisor because each interpolation branch is entered only when the
  saturation lies strictly between the branch's two range end points. The second part
  fails for the upper branch of the three-point scaling, which is the \<^verbatim>\<open>else\<close> of
  \<^verbatim>\<open>s < sR\<close> and so is entered at \<open>s = sR\<close> too (and at \<open>s = tep.disp\<close> in \<^verbatim>\<open>reverse\<close>): with
  \<open>sLO = 0.2\<close>, \<open>sR = 0.5\<close>, \<open>sHI = 0.9\<close> and \<open>s = 0.5\<close>, \<^verbatim>\<open>eval\<close> divides by \<open>sHI - sR\<close>.
\<close>

theorem interpolation_at_middle_node_counterexample:
  "eval_branch_3p \<lparr>low = 0.1, disp = 0.4, high = 0.8\<rparr> 0.2 0.5 0.9 0.5
     = (Fin 0.4, [dsub (Fin 0.9) (Fin 0.5)])
   \<and> \<not> ((0.5::real) < 0.5 \<and> (0.5::real) < 0.9)
   \<and> reverse_branch_3p \<lparr>low = 0.1, disp = 0.4, high = 0.8\<rparr> 0.2 0.5 0.9 0.4
     = (Fin 0.5, [dsub (Fin 0.8) (Fin 0.4)])
   \<and> \<not> ((0.4::real) < 0.4 \<and> (0.4::real) < 0.8)"
  by (simp add: eval_branch_3p_def reverse_branch_3p_def Let_def)

text \<open>
  Claim C10, amended. Every division in the four branch functions, which hold all the
  divisions of \<^verbatim>\<open>eval\<close> and \<^verbatim>\<open>reverse\<close> of both scalings, has a strictly positive divisor,
  with no precondition: an interpolation branch is entered only when the saturation lies
  strictly between the outer end points, strictly below the middle node in the lower
  three-point branch, and at or above the middle node (\<open>sR \<le> s < sHI\<close>, in \<^verbatim>\<open>reverse\<close>
  \<open>tep.disp \<le> s < tep.high\<close>) in the upper one. A degenerate interval (\<open>sLO == sHI\<close>, in
  \<^verbatim>\<open>reverse\<close> \<open>tep.low == tep.high\<close>) is resolved by the clamp branches without any division.
\<close>

theorem divisors_strictly_positive:
  "(\<forall>d \<in> set (snd (eval_branch_2p tep srng sLO sHI s)).
      dless (Fin 0) d \<and> d = Fin (sHI - sLO) \<and> sLO < s \<and> s < sHI)
   \<and> (\<forall>d \<in> set (snd (reverse_branch_2p tep (dsub (Fin (high tep)) (Fin (low tep))) sLO sHI s)).
      dless (Fin 0) d \<and> d = Fin (high tep - low tep) \<and> low tep < s \<and> s < high tep)
   \<and> (\<forall>d \<in> set (snd (eval_branch_3p tep sLO sR sHI s)).
      dless (Fin 0) d \<and> sLO < s \<and> s < sHI
      \<and> (d = Fin (sR - sLO) \<and> s < sR \<or> d = Fin (sHI - sR) \<and> sR \<le> s))
   \<and> (\<forall>d \<in> set (snd (reverse_branch_3p tep sLO sR sHI s)).
      dless (Fin 0) d \<and> low tep < s \<and> s < high tep
      \<and> (d = Fin (disp tep - low tep) \<and> s < disp tep
          \<or> d = Fin (high tep - disp tep) \<and> disp tep \<le> s))
   \<and> (sLO = sHI \<longrightarrow> snd (eval_branch_2p tep srng sLO sHI s) = []
                      \<and> snd (eval_branch_3p tep sLO sR sHI s) = [])
   \<and> (low tep = high tep \<longrightarrow>
         snd (reverse_branch_2p tep (dsub (Fin (high tep)) (Fin (low tep))) sLO sHI s) = []
         \<and> snd (reverse_branch_3p tep sLO sR sHI s) = [])"
proof -
  have e2: "\<forall>d \<in> set (snd (eval_branch_2p tep srng sLO sHI s)).
      dless (Fin 0) d \<and> d = Fin (sHI - sLO) \<and> sLO < s \<and> s < sHI"
    by (simp add: eval_branch_2p_def Let_def)
  have r2: "\<forall>d \<in> set (snd (reverse_branch_2p tep (dsub (Fin (high tep)) (Fin (low tep))) sLO sHI s)).
      dless (Fin 0) d \<and> d = Fin (high tep - low tep) \<and> low tep < s \<and> s < high tep"
    by (simp add: reverse_branch_2p_def Let_def)
  have e3: "\<forall>d \<in> set (snd (eval_branch_3p tep sLO sR sHI s)).
      dless (Fin 0) d \<and> sLO < s \<and> s < sHI
      \<and> (d = Fin (sR - sLO) \<and> s < sR \<or> d = Fin (sHI - sR) \<and> sR \<le> s)"
    by (simp add: eval_branch_3p_def Let_def)
  have r3: "\<forall>d \<in> set (snd (reverse_branch_3p tep sLO sR sHI s)).
      dless (Fin 0) d \<and> low tep < s \<and> s < high tep
      \<and> (d = Fin (disp tep - low tep) \<and> s < disp tep
          \<or> d = Fin (high tep - disp tep) \<and> disp tep \<le> s)"
    by (simp add: reverse_branch_3p_def Let_def)
  have de: "sLO = sHI \<longrightarrow> snd (eval_branch_2p tep srng sLO sHI s) = []
                      \<and> snd (eval_branch_3p tep sLO sR sHI s) = []"
    by (simp add: eval_branch_2p_def eval_branch_3p_def Let_def)
  have dr: "low tep = high tep \<longrightarrow>
         snd (reverse_branch_2p tep (dsub (Fin (high tep)) (Fin (low tep))) sLO sHI s) = []
         \<and> snd (reverse_branch_3p tep sLO sR sHI s) = []"
    by (simp add: reverse_branch_2p_def reverse_branch_3p_def Let_def)
  from e2 r2 e3 r3 de dr show ?thesis by blast
qed

text \<open>
  Instances: an interior point of the two-point scaling, a point of each three-point
  branch (the upper one at the middle node itself), and a fully degenerate cell.
\<close>

theorem divisors_strictly_positive_witness:
  "Fin 0.7 \<in> set (snd (eval_branch_2p \<lparr>low = 0.1, disp = 0.4, high = 0.8\<rparr> (Fin 0.7) 0.2 0.9 0.55))
   \<and> dless (Fin 0) (Fin 0.7)
   \<and> Fin 0.3 \<in> set (snd (eval_branch_3p \<lparr>low = 0.1, disp = 0.4, high = 0.8\<rparr> 0.2 0.5 0.9 0.3))
   \<and> dless (Fin 0) (Fin 0.3)
   \<and> Fin 0.4 \<in> set (snd (eval_branch_3p \<lparr>low = 0.1, disp = 0.4, high = 0.8\<rparr> 0.2 0.5 0.9 0.5))
   \<and> dless (Fin 0) (Fin 0.4)
   \<and> Fin 0.4 \<in> set (snd (reverse_branch_3p \<lparr>low = 0.1, disp = 0.4, high = 0.8\<rparr> 0.2 0.5 0.9 0.4))
   \<and> snd (eval_branch_3p \<lparr>low = 0.1, disp = 0.4, high = 0.8\<rparr> 0.5 0.5 0.5 0.5) = []"
  using divisors_strictly_positive
     [of "\<lparr>low = 0.1, disp = 0.4, high = 0.8\<rparr>" "Fin 0.7" "0.2" "0.9" "0.55" "0.5"]
    divisors_strictly_positive
     [of "\<lparr>low = 0.1, disp = 0.4, high = 0.8\<rparr>" "Fin 0.7" "0.2" "0.9" "0.3" "0.5"]
    divisors_strictly_positive
     [of "\<lparr>low = 0.1, disp = 0.4, high = 0.8\<rparr>" "Fin 0.7" "0.2" "0.9" "0.5" "0.5"]
    divisors_strictly_positive
     [of "\<lparr>low = 0.1, disp = 0.4, high = 0.8\<rparr>" "Fin 0.7" "0.2" "0.9" "0.4" "0.5"]
    divisors_strictly_positive
     [of "\<lparr>low = 0.1, disp = 0.4, high = 0.8\<rparr>" "Fin 0.7" "0.5" "0.5" "0.5" "0.5"]
  by (simp add: eval_branch_2p_def eval_branch_3p_def reverse_branch_3p_def Let_def)

end
